theory Spec2Isabelle
  imports Main "HOL-Library.Sublist"
begin

section \<open>Item records\<close>

text \<open>
  A scraped listing is a Python dictionary with the optional keys title, url, price and
  item_id (scrapers/yahoo.py, \<^verbatim>\<open>_extract_item_info\<close> and \<^verbatim>\<open>_parse_alternative\<close>).
  A key that is absent from the dictionary is \<open>None\<close> here. Prices are Python integers.
\<close>

record item =
  title :: "string option"
  url :: "string option"
  price :: "int option"
  item_id :: "string option"

text \<open>
  \<^verbatim>\<open>BaseScraper.get_price\<close> (base_scraper.py, lines 207-217):
  \<^verbatim>\<open>return item.get('price', 0)\<close>.
\<close>

definition get_price :: "item \<Rightarrow> int" where
  "get_price it = (case price it of None \<Rightarrow> 0 | Some p \<Rightarrow> p)"

subsection \<open>The Yahoo adapter's item id\<close>

text \<open>
  \<^verbatim>\<open>get_item_id\<close> is abstract in the base class; the functions of the base class below
  take it as the parameter \<open>gid\<close>. The only adapter of the repository resolves it as
  follows (scrapers/yahoo.py, lines 227-256). \<^verbatim>\<open>re.search(r'/auction/([a-z0-9]+)', url)\<close>
  finds the leftmost position where the text /auction/ is followed by at least one
  character of the class, and the group is the longest run of such characters there.
\<close>

definition is_id_char :: "char \<Rightarrow> bool" where
  "is_id_char c = (c \<in> set ''abcdefghijklmnopqrstuvwxyz0123456789'')"

fun extract_item_id_from_url :: "string \<Rightarrow> string" where
  "extract_item_id_from_url [] = []"
| "extract_item_id_from_url (c # cs) =
     (if take 9 (c # cs) = ''/auction/'' \<and> takeWhile is_id_char (drop 9 (c # cs)) \<noteq> []
      then takeWhile is_id_char (drop 9 (c # cs))
      else extract_item_id_from_url cs)"

text \<open>
  \<^verbatim>\<open>return item.get('item_id', '') or self._extract_item_id_from_url(item.get('url', ''))\<close>
\<close>

definition get_item_id :: "item \<Rightarrow> string" where
  "get_item_id it =
     (if (case item_id it of None \<Rightarrow> [] | Some s \<Rightarrow> s) \<noteq> []
      then (case item_id it of None \<Rightarrow> [] | Some s \<Rightarrow> s)
      else extract_item_id_from_url (case url it of None \<Rightarrow> [] | Some u \<Rightarrow> u))"

section \<open>The seen-item store\<close>

text \<open>
  \<^verbatim>\<open>_seen_items_by_keyword: Dict[str, Set[str]]\<close> is a map from keywords to sets of ids.

  The history file is one of:
  \<^item> \<open>Missing\<close>: \<^verbatim>\<open>self._history_file.exists()\<close> is false;
  \<^item> \<open>Inaccessible\<close>: the call of \<^verbatim>\<open>exists()\<close> itself raises. \<^verbatim>\<open>Path.exists\<close> calls
    \<^verbatim>\<open>stat\<close> and re-raises every error but ENOENT, ENOTDIR, EBADF and ELOOP, for
    instance EACCES (no search permission on the directory) and EIO;
  \<^item> \<open>Unreadable\<close>: the file exists, and opening it, \<^verbatim>\<open>json.load\<close> or the conversion
    raises (no read permission on the file, bytes that are not UTF-8, text that is not a
    JSON document, which includes the empty file and every proper prefix of a dumped
    document);
  \<^item> \<open>Stored\<close>: a JSON object of arrays of strings.

  \<^verbatim>\<open>_load_seen_items\<close> applies
  \<^verbatim>\<open>set\<close> to every array and \<^verbatim>\<open>_save_seen_items\<close> writes \<^verbatim>\<open>list(v)\<close>, whose order Python
  leaves open, so the arrays of a stored object are kept as the sets of their elements.
\<close>

type_synonym seen_items = "string \<rightharpoonup> string set"

datatype history_file = Missing | Inaccessible | Unreadable | Stored seen_items

text \<open>An instance of \<^verbatim>\<open>Exception\<close> that a call raises, with the name of its class.\<close>

datatype exn = Exn string

text \<open>
  \<^verbatim>\<open>_load_seen_items\<close> (base_scraper.py, lines 112-126). The test
  \<^verbatim>\<open>if not self._history_file.exists()\<close> of line 116 stands before the \<^verbatim>\<open>try\<close>: when
  it raises, the exception leaves the function. The empty dictionary is returned when
  the file does not exist, and when anything in the \<^verbatim>\<open>try\<close> block raises.
\<close>

fun load_seen_items :: "history_file \<Rightarrow> exn + seen_items" where
  "load_seen_items Missing = Inr Map.empty"
| "load_seen_items Inaccessible = Inl (Exn ''OSError'')"
| "load_seen_items Unreadable = Inr Map.empty"
| "load_seen_items (Stored data) = Inr data"

text \<open>
  \<^verbatim>\<open>_save_seen_items\<close> (lines 128-137) opens the history file itself with mode "w", which
  truncates it, and dumps the whole dictionary into it; every exception is caught and
  logged. What the file holds afterwards depends on how far the write got, which the
  environment decides:
  \<^item> \<open>NotOpened\<close>: \<^verbatim>\<open>open\<close> raised, or the process stopped before it; the file is as before;
  \<^item> \<open>Truncated\<close>: \<^verbatim>\<open>open\<close> has truncated the file and \<^verbatim>\<open>json.dump\<close> did not finish (it
    raised, or the process stopped); the file is empty or a proper prefix of the document;
  \<^item> \<open>Completed\<close>: the document was written and the file closed.
\<close>

datatype write_progress = NotOpened | Truncated | Completed

fun save_seen_items :: "write_progress \<Rightarrow> seen_items \<Rightarrow> history_file \<Rightarrow> history_file" where
  "save_seen_items NotOpened m old = old"
| "save_seen_items Truncated m old = Unreadable"
| "save_seen_items Completed m old = Stored m"

text \<open>
  \<^verbatim>\<open>_get_seen_items_for_keyword\<close> (lines 139-145) returns the keyword's set, creating an
  empty one when the keyword is not in the dictionary. Python returns a reference into
  the dictionary; the callers below write the set they have updated back under the keyword.
\<close>

definition get_seen_items_for_keyword :: "string \<Rightarrow> seen_items \<Rightarrow> seen_items \<times> string set" where
  "get_seen_items_for_keyword keyword m =
     (case m keyword of None \<Rightarrow> (m(keyword \<mapsto> {}), {}) | Some s \<Rightarrow> (m, s))"

definition seen_of :: "seen_items \<Rightarrow> string \<Rightarrow> string set" where
  "seen_of m keyword = (case m keyword of None \<Rightarrow> {} | Some s \<Rightarrow> s)"

section \<open>Detection\<close>

text \<open>
  \<^verbatim>\<open>filter_new_items\<close> (lines 186-205). \<^verbatim>\<open>if item_id and ...\<close> tests that the id is not the
  empty string, \<^verbatim>\<open>if price and price >= self.min_price\<close> that the price is not zero and
  reaches the minimum. The function only reads \<open>seen_items\<close>.
\<close>

fun filter_new_items :: "(item \<Rightarrow> string) \<Rightarrow> int \<Rightarrow> item list \<Rightarrow> string set \<Rightarrow> item list" where
  "filter_new_items gid mp [] seen = []"
| "filter_new_items gid mp (it # items) seen =
     (if gid it \<noteq> [] \<and> gid it \<notin> seen then
        (if get_price it \<noteq> 0 \<and> get_price it \<ge> mp
         then it # filter_new_items gid mp items seen
         else filter_new_items gid mp items seen)
      else filter_new_items gid mp items seen)"

text \<open>
  The same loop with the two objects it can reach written out as its state: the local
  list \<^verbatim>\<open>new_items\<close>, to which it appends, and the caller's set \<^verbatim>\<open>seen_items\<close>, on which
  it evaluates \<^verbatim>\<open>item_id not in seen_items\<close> and nothing else.
\<close>

fun filter_new_items_loop ::
  "(item \<Rightarrow> string) \<Rightarrow> int \<Rightarrow> item list \<Rightarrow> item list \<Rightarrow> string set \<Rightarrow> item list \<times> string set" where
  "filter_new_items_loop gid mp [] new_items seen = (new_items, seen)"
| "filter_new_items_loop gid mp (it # items) new_items seen =
     (if gid it \<noteq> [] \<and> gid it \<notin> seen then
        (if get_price it \<noteq> 0 \<and> get_price it \<ge> mp
         then filter_new_items_loop gid mp items (new_items @ [it]) seen
         else filter_new_items_loop gid mp items new_items seen)
      else filter_new_items_loop gid mp items new_items seen)"

section \<open>The monitor loop\<close>

record scraper =
  site_name :: string
  keywords_list :: "string list"
  min_price :: int
  enabled :: bool

text \<open>
  What the world does during one iteration of the keyword loop: what \<^verbatim>\<open>self.search\<close>
  returns or raises (an instance of \<^verbatim>\<open>Exception\<close>), whether the delivery of an item's
  message succeeds, and how far a write of the history file gets.
\<close>

record env =
  search_result :: "exn + item list"
  delivered :: "item \<Rightarrow> bool"
  written :: write_progress

text \<open>The in-memory dictionary of a scraper object and the history file on disk.\<close>

record state =
  seen_items_by_keyword :: seen_items
  disk :: history_file

text \<open>
  A call of \<^verbatim>\<open>notify\<close>: the keyword being processed, the item, and whether the message
  was delivered. \<^verbatim>\<open>notify\<close> (lines 219-231) catches every exception of formatting and
  sending, so it always returns.
\<close>

type_synonym notification = "string \<times> item \<times> bool"

definition notify :: "env \<Rightarrow> string \<Rightarrow> item \<Rightarrow> notification" where
  "notify e keyword it = (keyword, it, delivered e it)"


text \<open>The first-run loop (lines 72-76): every non-empty id is added to the set.\<close>

fun register_items :: "(item \<Rightarrow> string) \<Rightarrow> item list \<Rightarrow> string set \<Rightarrow> string set" where
  "register_items gid [] seen = seen"
| "register_items gid (it # items) seen =
     register_items gid items (if gid it \<noteq> [] then insert (gid it) seen else seen)"

text \<open>
  The notification loop (lines 88-93), as the sequence of its effects: for each item,
  the call \<^verbatim>\<open>self.notify(item)\<close>, and then, when the id is not empty,
  \<^verbatim>\<open>seen_items.add(item_id)\<close>.
\<close>

datatype event = Notify notification | Add string

fun notify_events :: "(item \<Rightarrow> string) \<Rightarrow> env \<Rightarrow> string \<Rightarrow> item list \<Rightarrow> event list" where
  "notify_events gid e keyword [] = []"
| "notify_events gid e keyword (it # new_items) =
     Notify (notify e keyword it) #
     (if gid it \<noteq> [] then Add (gid it) # notify_events gid e keyword new_items
      else notify_events gid e keyword new_items)"

text \<open>The set after a sequence of effects, and the calls of \<^verbatim>\<open>notify\<close> among them.\<close>

fun seen_after :: "event list \<Rightarrow> string set \<Rightarrow> string set" where
  "seen_after [] seen = seen"
| "seen_after (Notify n # evs) seen = seen_after evs seen"
| "seen_after (Add x # evs) seen = seen_after evs (insert x seen)"

fun notifications_of :: "event list \<Rightarrow> notification list" where
  "notifications_of [] = []"
| "notifications_of (Notify n # evs) = n # notifications_of evs"
| "notifications_of (Add x # evs) = notifications_of evs"

definition notify_items ::
  "(item \<Rightarrow> string) \<Rightarrow> env \<Rightarrow> string \<Rightarrow> item list \<Rightarrow> string set \<Rightarrow> string set \<times> notification list" where
  "notify_items gid e keyword new_items seen =
     (seen_after (notify_events gid e keyword new_items) seen,
      notifications_of (notify_events gid e keyword new_items))"

text \<open>
  Every \<^verbatim>\<open>add\<close> in a sequence of effects comes directly after the call of \<^verbatim>\<open>notify\<close> for
  an item with the id that is added.
\<close>

fun adds_follow_notify :: "(item \<Rightarrow> string) \<Rightarrow> event list \<Rightarrow> bool" where
  "adds_follow_notify gid [] = True"
| "adds_follow_notify gid (Add x # evs) = False"
| "adds_follow_notify gid (Notify n # Add x # evs) =
     (gid (fst (snd n)) = x \<and> adds_follow_notify gid evs)"
| "adds_follow_notify gid (Notify n # evs) = adds_follow_notify gid evs"


text \<open>
  The body of the keyword loop (lines 64-104). When \<^verbatim>\<open>search\<close> raises, the handler logs
  and continues with the next keyword; nothing has been touched by then.
\<close>

definition run_keyword ::
  "(item \<Rightarrow> string) \<Rightarrow> scraper \<Rightarrow> string \<Rightarrow> env \<Rightarrow> state \<Rightarrow> state \<times> notification list" where
  "run_keyword gid sc keyword e st =
     (case search_result e of
        Inl err \<Rightarrow> (st, [])
      | Inr items \<Rightarrow>
          (case get_seen_items_for_keyword keyword (seen_items_by_keyword st) of
             (m, seen) \<Rightarrow>
               if seen = {} then
                 (\<lparr>seen_items_by_keyword = m(keyword \<mapsto> register_items gid items seen),
                   disk = save_seen_items (written e)
                            (m(keyword \<mapsto> register_items gid items seen)) (disk st)\<rparr>, [])
               else if filter_new_items gid (min_price sc) items seen \<noteq> [] then
                 (case notify_items gid e keyword
                         (filter_new_items gid (min_price sc) items seen) seen of
                    (seen', ns) \<Rightarrow>
                      (\<lparr>seen_items_by_keyword = m(keyword \<mapsto> seen'),
                        disk = save_seen_items (written e) (m(keyword \<mapsto> seen')) (disk st)\<rparr>, ns))
               else (\<lparr>seen_items_by_keyword = m, disk = disk st\<rparr>, [])))"

fun run_keywords ::
  "(item \<Rightarrow> string) \<Rightarrow> scraper \<Rightarrow> (string \<times> env) list \<Rightarrow> state \<Rightarrow> state \<times> notification list" where
  "run_keywords gid sc [] st = (st, [])"
| "run_keywords gid sc (ke # rest) st =
     (case run_keyword gid sc (fst ke) (snd ke) st of
        (st', ns) \<Rightarrow>
          (case run_keywords gid sc rest st' of (st'', ns') \<Rightarrow> (st'', ns @ ns')))"

text \<open>
  \<^verbatim>\<open>BaseScraper.run\<close> (lines 46-107); \<open>envs\<close> gives the environment of each iteration of
  the keyword loop, in order.
\<close>

definition run ::
  "(item \<Rightarrow> string) \<Rightarrow> scraper \<Rightarrow> env list \<Rightarrow> state \<Rightarrow> state \<times> notification list" where
  "run gid sc envs st =
     (if \<not> enabled sc then (st, [])
      else if keywords_list sc = [] then (st, [])
      else run_keywords gid sc (zip (keywords_list sc) envs) st)"

section \<open>Passes\<close>

text \<open>
  A monitoring pass runs a scraper built from the configuration read for that pass,
  either on the dictionary the previous pass left in memory (the same object runs
  again) or on a dictionary loaded from the history file (a new object is constructed:
  \<^verbatim>\<open>__init__\<close>, line 44, which \<^verbatim>\<open>run_monitoring\<close> of main.py does at every pass).
\<close>

record pass =
  pass_scraper :: scraper
  reload :: bool
  envs :: "env list"

definition start_pass :: "pass \<Rightarrow> state \<Rightarrow> exn + state" where
  "start_pass p st =
     (if reload p then
        (case load_seen_items (disk st) of
           Inl err \<Rightarrow> Inl err
         | Inr m \<Rightarrow> Inr \<lparr>seen_items_by_keyword = m, disk = disk st\<rparr>)
      else Inr st)"

text \<open>
  When the constructor raises, \<^verbatim>\<open>create_scrapers\<close> logs the error and the pass has no
  scraper to run.
\<close>

definition run_pass :: "(item \<Rightarrow> string) \<Rightarrow> pass \<Rightarrow> state \<Rightarrow> state \<times> notification list" where
  "run_pass gid p st =
     (case start_pass p st of
        Inl err \<Rightarrow> (st, [])
      | Inr st0 \<Rightarrow> run gid (pass_scraper p) (envs p) st0)"

fun run_passes :: "(item \<Rightarrow> string) \<Rightarrow> pass list \<Rightarrow> state \<Rightarrow> state \<times> notification list" where
  "run_passes gid [] st = (st, [])"
| "run_passes gid (p # ps) st =
     (case run_pass gid p st of
        (st', ns) \<Rightarrow> (case run_passes gid ps st' of (st'', ns') \<Rightarrow> (st'', ns @ ns')))"


text \<open>No id but the empty one occurs twice in the list a search returned.\<close>

definition ids_distinct :: "(item \<Rightarrow> string) \<Rightarrow> env \<Rightarrow> bool" where
  "ids_distinct gid e =
     (case search_result e of
        Inl err \<Rightarrow> True
      | Inr items \<Rightarrow> distinct (filter (\<lambda>s. s \<noteq> []) (map gid items)))"

fun all_ids_distinct :: "(item \<Rightarrow> string) \<Rightarrow> pass list \<Rightarrow> bool" where
  "all_ids_distinct gid [] = True"
| "all_ids_distinct gid (p # ps) = (list_all (ids_distinct gid) (envs p) \<and> all_ids_distinct gid ps)"


section \<open>Orchestration (main.py)\<close>

text \<open>
  The configuration of one source, as read from config.json; a field that the file
  omits is \<open>None\<close>.
\<close>

record source_config =
  cfg_keywords :: "string list option"
  cfg_min_price :: "int option"
  cfg_enabled :: "bool option"

text \<open>
  \<^verbatim>\<open>BaseScraper.__init__\<close> (base_scraper.py, lines 20-44): the defaults of the three
  fields, and the dictionary loaded from the site's history file. An exception of
  \<^verbatim>\<open>_load_seen_items\<close> leaves the constructor.
\<close>

definition BaseScraper_init ::
  "string \<Rightarrow> source_config \<Rightarrow> history_file \<Rightarrow> exn + scraper \<times> seen_items" where
  "BaseScraper_init name c f =
     (case load_seen_items f of
        Inl err \<Rightarrow> Inl err
      | Inr m \<Rightarrow>
          Inr (\<lparr>site_name = name,
                keywords_list = (case cfg_keywords c of None \<Rightarrow> [] | Some ks \<Rightarrow> ks),
                min_price = (case cfg_min_price c of None \<Rightarrow> 0 | Some p \<Rightarrow> p),
                enabled = (case cfg_enabled c of None \<Rightarrow> True | Some b \<Rightarrow> b)\<rparr>, m))"

definition YahooScraper_init ::
  "source_config \<Rightarrow> history_file \<Rightarrow> exn + scraper \<times> seen_items" where
  "YahooScraper_init c f = BaseScraper_init ''yahoo'' c f"

text \<open>
  \<^verbatim>\<open>create_scrapers\<close> (main.py, lines 57-86):
  \<^verbatim>\<open>if 'yahoo' in config and config['yahoo'].get('enabled', False)\<close>; an exception of
  the constructor is caught and logged, and the scraper is left out.
  Yahoo is the only site, and \<open>f\<close> is its history file.
\<close>

definition create_scrapers ::
  "(string \<rightharpoonup> source_config) \<Rightarrow> history_file \<Rightarrow> (scraper \<times> seen_items) list" where
  "create_scrapers config f =
     (case config ''yahoo'' of
        None \<Rightarrow> []
      | Some c \<Rightarrow>
          if (case cfg_enabled c of None \<Rightarrow> False | Some b \<Rightarrow> b)
          then (case YahooScraper_init c f of Inl err \<Rightarrow> [] | Inr s \<Rightarrow> [s])
          else [])"

fun run_scrapers ::
  "(scraper \<times> seen_items) list \<Rightarrow> env list \<Rightarrow> history_file \<Rightarrow> history_file \<times> notification list" where
  "run_scrapers [] es f = (f, [])"
| "run_scrapers (s # rest) es f =
     (case run get_item_id (fst s) es \<lparr>seen_items_by_keyword = snd s, disk = f\<rparr> of
        (st, ns) \<Rightarrow>
          (case run_scrapers rest es (disk st) of (f', ns') \<Rightarrow> (f', ns @ ns')))"

text \<open>
  \<^verbatim>\<open>run_monitoring\<close> (main.py, lines 89-118), from the configuration that
  \<^verbatim>\<open>load_config\<close> returned (the empty dictionary when it could not be read).
\<close>

definition run_monitoring ::
  "(string \<rightharpoonup> source_config) \<Rightarrow> env list \<Rightarrow> history_file \<Rightarrow> history_file \<times> notification list" where
  "run_monitoring config es f =
     (if dom config = {} then (f, [])
      else if create_scrapers config f = [] then (f, [])
      else run_scrapers (create_scrapers config f) es f)"

section \<open>Example data\<close>

text \<open>The items and environments of the scenarios used below.\<close>

definition item_A :: item where
  "item_A = \<lparr>title = Some ''Cam1'', url = Some ''u1'', price = Some 100, item_id = Some ''a''\<rparr>"

definition item_B :: item where
  "item_B = \<lparr>title = Some ''Cam2'', url = Some ''u2'', price = Some 80, item_id = Some ''b''\<rparr>"

definition item_C :: item where
  "item_C = \<lparr>title = Some ''Cam3'', url = Some ''u3'', price = Some 5, item_id = Some ''c''\<rparr>"

definition item_unpriced :: item where
  "item_unpriced = \<lparr>title = Some ''Cam4'', url = Some ''u4'', price = None, item_id = Some ''d''\<rparr>"

definition found :: "item list \<Rightarrow> env" where
  "found items = \<lparr>search_result = Inr items, delivered = (\<lambda>it. True), written = Completed\<rparr>"

definition failing :: env where
  "failing = \<lparr>search_result = Inl (Exn ''timeout''), delivered = (\<lambda>it. True), written = Completed\<rparr>"

definition camera_scraper :: scraper where
  "camera_scraper = \<lparr>site_name = ''yahoo'', keywords_list = [''camera''], min_price = 10, enabled = True\<rparr>"

definition three_keywords :: scraper where
  "three_keywords = \<lparr>site_name = ''yahoo'', keywords_list = [''camera'', ''lens'', ''tripod''],
     min_price = 10, enabled = True\<rparr>"

definition steady :: state where
  "steady = \<lparr>seen_items_by_keyword = [''camera'' \<mapsto> {''a''}, ''tripod'' \<mapsto> {''a''}],
     disk = Stored [''camera'' \<mapsto> {''a''}, ''tripod'' \<mapsto> {''a''}]\<rparr>"




section \<open>Properties of detection\<close>

lemma filter_new_items_eq:
  "filter_new_items gid mp items seen =
     filter (\<lambda>it. gid it \<noteq> [] \<and> gid it \<notin> seen \<and> get_price it \<noteq> 0 \<and> mp \<le> get_price it) items"
  by (induction items) simp_all

text \<open>
  C4. Incremental exclusion: whatever the list of fresh items, the seen-set and the
  minimum price, an item whose id is in the seen-set is not in the list the filter returns.
\<close>

theorem filter_new_items_excludes_seen:
  "gid it \<in> seen \<Longrightarrow> it \<notin> set (filter_new_items gid mp items seen)"
  by (simp add: filter_new_items_eq)

theorem filter_new_items_excludes_seen_witness:
  "get_item_id item_A \<in> {''a''} \<and> item_A \<in> set [item_A, item_B]
   \<and> item_A \<notin> set (filter_new_items get_item_id 10 [item_A, item_B] {''a''})"
  using filter_new_items_excludes_seen [of get_item_id item_A "{''a''}" 10 "[item_A, item_B]"]
  by (simp add: get_item_id_def item_A_def)

text \<open>
  C2, as the spec states it, fails: an item with a non-empty id that is not in the
  seen-set and whose price is unresolved (0) is not a candidate when the minimum price
  is 0, although 0 \<ge> 0.
\<close>

theorem unpriced_item_counterexample:
  "get_item_id item_unpriced \<noteq> [] \<and> get_item_id item_unpriced \<notin> {''a''}
   \<and> get_price item_unpriced = 0 \<and> (0::int) \<le> get_price item_unpriced
   \<and> item_unpriced \<notin> set (filter_new_items get_item_id 0 [item_unpriced] {''a''})"
  by (simp add: get_item_id_def get_price_def item_unpriced_def)

text \<open>
  C2, amended. An item of the fresh list is a notification candidate if and only if its
  id is non-empty and not in the seen-set, its price is not zero, and its price is at
  least the minimum price; so an item whose price is unresolved is excluded for every
  minimum price, 0 included.
\<close>

theorem filter_new_items_candidates:
  "(it \<in> set (filter_new_items gid mp items seen) \<longleftrightarrow>
      it \<in> set items \<and> gid it \<noteq> [] \<and> gid it \<notin> seen \<and> get_price it \<noteq> 0 \<and> mp \<le> get_price it)
   \<and> (price it = None \<longrightarrow> it \<notin> set (filter_new_items gid mp items seen))"
  by (auto simp: filter_new_items_eq get_price_def)

theorem filter_new_items_candidates_witness:
  "item_B \<in> set (filter_new_items get_item_id 10 [item_A, item_B, item_C, item_unpriced] {''a''})
   \<and> item_C \<notin> set (filter_new_items get_item_id 10 [item_A, item_B, item_C, item_unpriced] {''a''})
   \<and> price item_unpriced = None
   \<and> item_unpriced \<notin> set (filter_new_items get_item_id 0 [item_A, item_B, item_C, item_unpriced] {''a''})"
  using filter_new_items_candidates [of item_unpriced get_item_id 0 "[item_A, item_B, item_C, item_unpriced]" "{''a''}"]
  by (simp add: get_item_id_def get_price_def item_A_def item_B_def item_C_def item_unpriced_def)

section \<open>Properties of the loops\<close>

lemma seen_after_notify_events:
  "seen_after (notify_events gid e k new_items) seen =
     seen \<union> set (filter (\<lambda>s. s \<noteq> []) (map gid new_items))"
  by (induction new_items arbitrary: seen) auto

lemma notifications_of_notify_events:
  "notifications_of (notify_events gid e k new_items) = map (notify e k) new_items"
  by (induction new_items) auto

lemma notify_items_eq:
  "notify_items gid e k new_items seen =
     (seen \<union> set (filter (\<lambda>s. s \<noteq> []) (map gid new_items)), map (notify e k) new_items)"
  by (simp add: notify_items_def seen_after_notify_events notifications_of_notify_events)

lemma register_items_eq:
  "register_items gid items seen = seen \<union> set (filter (\<lambda>s. s \<noteq> []) (map gid items))"
  by (induction items arbitrary: seen) auto

lemma filter_new_items_ids:
  "filter (\<lambda>s. s \<noteq> []) (map gid (filter_new_items gid mp items seen)) =
   map gid (filter_new_items gid mp items seen)"
  by (induction items) auto

lemma run_keyword_bootstrap:
  assumes "search_result e = Inr items" and "seen_of (seen_items_by_keyword st) keyword = {}"
  shows "run_keyword gid sc keyword e st =
     (\<lparr>seen_items_by_keyword =
          (seen_items_by_keyword st)(keyword \<mapsto> set (filter (\<lambda>s. s \<noteq> []) (map gid items))),
        disk = save_seen_items (written e)
          ((seen_items_by_keyword st)(keyword \<mapsto> set (filter (\<lambda>s. s \<noteq> []) (map gid items))))
          (disk st)\<rparr>, [])"
  using assms
  by (auto simp: run_keyword_def get_seen_items_for_keyword_def seen_of_def register_items_eq
           split: option.splits)

lemma run_keyword_incremental:
  assumes "search_result e = Inr items" and "seen_items_by_keyword st keyword = Some seen"
    and "seen \<noteq> {}"
  shows "run_keyword gid sc keyword e st =
     (if filter_new_items gid (min_price sc) items seen \<noteq> [] then
        (\<lparr>seen_items_by_keyword = (seen_items_by_keyword st)
             (keyword \<mapsto> seen \<union> set (map gid (filter_new_items gid (min_price sc) items seen))),
          disk = save_seen_items (written e)
             ((seen_items_by_keyword st)
                (keyword \<mapsto> seen \<union> set (map gid (filter_new_items gid (min_price sc) items seen))))
             (disk st)\<rparr>,
         map (notify e keyword) (filter_new_items gid (min_price sc) items seen))
      else (st, []))"
  using assms
  by (simp add: run_keyword_def get_seen_items_for_keyword_def notify_items_eq filter_new_items_ids)

lemma run_keyword_failed:
  "search_result e = Inl err \<Longrightarrow> run_keyword gid sc keyword e st = (st, [])"
  by (simp add: run_keyword_def)

text \<open>
  C3. Bootstrap: when the keyword's seen-set is empty at the time of the call (absent
  from the dictionary, or present and empty), processing any list the search returned
  sends no notification, and afterwards the keyword's seen-set is exactly the set of
  the non-empty ids of the fresh items.
\<close>

theorem bootstrap_registers_without_notifying:
  assumes "search_result e = Inr items" and "seen_of (seen_items_by_keyword st) keyword = {}"
  shows "snd (run_keyword gid sc keyword e st) = [] \<and>
         seen_items_by_keyword (fst (run_keyword gid sc keyword e st)) keyword =
           Some (set (filter (\<lambda>s. s \<noteq> []) (map gid items)))"
  using assms by (simp add: run_keyword_bootstrap)

theorem bootstrap_registers_without_notifying_witness:
  "search_result (found [item_A, item_B]) = Inr [item_A, item_B] \<and>
   seen_of (seen_items_by_keyword \<lparr>seen_items_by_keyword = Map.empty, disk = Missing\<rparr>) ''camera'' = {} \<and>
   snd (run_keyword get_item_id (camera_scraper\<lparr>min_price := 0\<rparr>) ''camera'' (found [item_A, item_B])
          \<lparr>seen_items_by_keyword = Map.empty, disk = Missing\<rparr>) = [] \<and>
   seen_items_by_keyword
     (fst (run_keyword get_item_id (camera_scraper\<lparr>min_price := 0\<rparr>) ''camera'' (found [item_A, item_B])
          \<lparr>seen_items_by_keyword = Map.empty, disk = Missing\<rparr>)) ''camera'' = Some {''a'', ''b''}"
  using bootstrap_registers_without_notifying
    [of "found [item_A, item_B]" "[item_A, item_B]"
        "\<lparr>seen_items_by_keyword = Map.empty, disk = Missing\<rparr>" "''camera''" get_item_id
        "camera_scraper\<lparr>min_price := 0\<rparr>"]
  by (simp add: found_def seen_of_def get_item_id_def item_A_def item_B_def insert_commute)

lemma filter_new_items_loop_eq:
  "filter_new_items_loop gid mp items new_items seen =
     (new_items @ filter_new_items gid mp items seen, seen)"
  by (induction items arbitrary: new_items) simp_all

lemma adds_follow_notify_events:
  "adds_follow_notify gid (notify_events gid e k new_items)"
proof (induction new_items)
  case Nil
  show ?case by simp
next
  case (Cons it rest)
  show ?case
  proof (cases "gid it = []")
    case False
    with Cons show ?thesis by (simp add: notify_def)
  next
    case True
    with Cons show ?thesis by (cases rest) simp_all
  qed
qed

text \<open>
  C10. Detection does not touch the seen-set. For every list of items and every
  seen-set, the empty one included, the filter's loop ends with the set it was given
  and returns a subsequence of its input, in the input's order. The ids are added by
  the notification loop of \<^verbatim>\<open>run\<close>: in its sequence of effects every \<^verbatim>\<open>add\<close> comes directly
  after the call of \<^verbatim>\<open>notify\<close> for the item with that id, and in an iteration that calls
  the filter (the keyword's set is not empty) the notifications and the keyword's set
  afterwards are those of that sequence on the filter's result.
\<close>

theorem filter_new_items_frame:
  "filter_new_items_loop gid mp items [] seen = (filter_new_items gid mp items seen, seen) \<and>
   subseq (filter_new_items gid mp items seen) items \<and>
   adds_follow_notify gid (notify_events gid e keyword new_items) \<and>
   (search_result e = Inr items \<longrightarrow> seen_items_by_keyword st keyword = Some seen \<longrightarrow> seen \<noteq> {} \<longrightarrow>
      snd (run_keyword gid sc keyword e st) =
        notifications_of
          (notify_events gid e keyword (filter_new_items gid (min_price sc) items seen)) \<and>
      seen_of (seen_items_by_keyword (fst (run_keyword gid sc keyword e st))) keyword =
        seen_after
          (notify_events gid e keyword (filter_new_items gid (min_price sc) items seen)) seen)"
proof -
  have "filter_new_items_loop gid mp items [] seen = (filter_new_items gid mp items seen, seen)"
    by (simp add: filter_new_items_loop_eq)
  moreover have "subseq (filter_new_items gid mp items seen) items"
    by (simp add: filter_new_items_eq)
  moreover have "adds_follow_notify gid (notify_events gid e keyword new_items)"
    by (rule adds_follow_notify_events)
  moreover have "snd (run_keyword gid sc keyword e st) =
        notifications_of
          (notify_events gid e keyword (filter_new_items gid (min_price sc) items seen))"
    if "search_result e = Inr items" "seen_items_by_keyword st keyword = Some seen" "seen \<noteq> {}"
    using that
    by (simp add: run_keyword_incremental notifications_of_notify_events)
  moreover have "seen_of (seen_items_by_keyword (fst (run_keyword gid sc keyword e st))) keyword =
        seen_after
          (notify_events gid e keyword (filter_new_items gid (min_price sc) items seen)) seen"
    if "search_result e = Inr items" "seen_items_by_keyword st keyword = Some seen" "seen \<noteq> {}"
    using that
    by (simp add: run_keyword_incremental seen_of_def seen_after_notify_events filter_new_items_ids)
  ultimately show ?thesis by blast
qed

theorem filter_new_items_frame_witness:
  "filter_new_items_loop get_item_id 10 [item_A, item_B, item_C] [] {} = ([item_A, item_B], {}) \<and>
   filter_new_items_loop get_item_id 10 [item_A, item_B, item_C] [] {''a''} = ([item_B], {''a''}) \<and>
   subseq [item_B] [item_A, item_B, item_C] \<and>
   notify_events get_item_id (found [item_A, item_B, item_C]) ''camera'' [item_B] =
     [Notify (''camera'', item_B, True), Add ''b''] \<and>
   adds_follow_notify get_item_id [Notify (''camera'', item_B, True), Add ''b''] \<and>
   \<not> adds_follow_notify get_item_id [Add ''b'', Notify (''camera'', item_B, True)] \<and>
   search_result (found [item_A, item_B, item_C]) = Inr [item_A, item_B, item_C] \<and>
   seen_items_by_keyword \<lparr>seen_items_by_keyword = [''camera'' \<mapsto> {''a''}], disk = Missing\<rparr> ''camera''
      = Some {''a''} \<and> {''a''} \<noteq> ({} :: string set) \<and>
   snd (run_keyword get_item_id camera_scraper ''camera'' (found [item_A, item_B, item_C])
          \<lparr>seen_items_by_keyword = [''camera'' \<mapsto> {''a''}], disk = Missing\<rparr>)
     = [(''camera'', item_B, True)] \<and>
   seen_of (seen_items_by_keyword
     (fst (run_keyword get_item_id camera_scraper ''camera'' (found [item_A, item_B, item_C])
          \<lparr>seen_items_by_keyword = [''camera'' \<mapsto> {''a''}], disk = Missing\<rparr>))) ''camera''
     = {''a'', ''b''}"
  using filter_new_items_frame
    [where gid = get_item_id and mp = 10 and items = "[item_A, item_B, item_C]" and seen = "{''a''}"
       and e = "found [item_A, item_B, item_C]" and keyword = "''camera''" and new_items = "[item_B]"
       and st = "\<lparr>seen_items_by_keyword = [''camera'' \<mapsto> {''a''}], disk = Missing\<rparr>"
       and sc = camera_scraper]
  by (simp add: found_def get_item_id_def get_price_def item_A_def item_B_def item_C_def
        camera_scraper_def notify_def insert_commute)

section \<open>Properties of the store\<close>

text \<open>
  What the loading tolerates: it returns the empty dictionary when the history file is
  missing and when anything in the \<^verbatim>\<open>try\<close> block fails, and a keyword that a loaded
  file does not mention has no history: its seen-set is empty, and the first access
  creates the empty set for it.
\<close>

lemma load_seen_items_recovers:
  "load_seen_items Missing = Inr Map.empty \<and> load_seen_items Unreadable = Inr Map.empty \<and>
   (data keyword = None \<longrightarrow>
      load_seen_items (Stored data) = Inr data \<and> seen_of data keyword = {} \<and>
      get_seen_items_for_keyword keyword data = (data(keyword \<mapsto> {}), {}))"
  by (simp add: get_seen_items_for_keyword_def seen_of_def)

text \<open>
  C7 does not hold of the code at one kind of read failure. The existence test of line
  116 is outside the \<^verbatim>\<open>try\<close> block, so when \<^verbatim>\<open>stat\<close> fails on the history file with an
  error that \<^verbatim>\<open>Path.exists\<close> re-raises, the loading raises instead of returning the
  empty dictionary; the exception leaves the constructor too, and \<^verbatim>\<open>create_scrapers\<close>
  then builds no scraper, so the pass monitors nothing instead of starting from an
  empty history. (\<^verbatim>\<open>load_config\<close> in main.py has its existence test inside the
  \<^verbatim>\<open>try\<close>.)
\<close>

theorem load_seen_items_raises_on_stat_error:
  "load_seen_items Inaccessible = Inl (Exn ''OSError'') \<and>
   load_seen_items Inaccessible \<noteq> Inr Map.empty \<and>
   YahooScraper_init \<lparr>cfg_keywords = Some [''camera''], cfg_min_price = Some 10, cfg_enabled = Some True\<rparr>
     Inaccessible = Inl (Exn ''OSError'') \<and>
   run_monitoring
     [''yahoo'' \<mapsto> \<lparr>cfg_keywords = Some [''camera''], cfg_min_price = Some 10, cfg_enabled = Some True\<rparr>]
     [found [item_A, item_B]] Inaccessible = (Inaccessible, [])"
  by (simp add: YahooScraper_init_def BaseScraper_init_def create_scrapers_def run_monitoring_def)

text \<open>
  C8, as the spec states it, fails: the save writes into the history file itself, so a
  save that is interrupted after the file has been opened leaves a file that is neither
  the old state nor the new one.
\<close>

theorem interrupted_save_counterexample:
  "save_seen_items Truncated [''camera'' \<mapsto> {''a'', ''b''}] (Stored [''camera'' \<mapsto> {''a''}])
      \<noteq> Stored [''camera'' \<mapsto> {''a''}] \<and>
   save_seen_items Truncated [''camera'' \<mapsto> {''a'', ''b''}] (Stored [''camera'' \<mapsto> {''a''}])
      \<noteq> Stored [''camera'' \<mapsto> {''a'', ''b''}]"
  by simp

text \<open>
  C8, amended. The save overwrites the history file in place. A save that cannot open
  the file leaves the old state; a save that completes leaves the new state, which
  loads back as the dictionary that was saved; a save interrupted after the open leaves
  a truncated file, from which loading returns the empty dictionary.
\<close>

theorem save_seen_items_outcomes:
  "save_seen_items NotOpened m old = old \<and>
   save_seen_items Completed m old = Stored m \<and>
   load_seen_items (save_seen_items Completed m old) = Inr m \<and>
   save_seen_items Truncated m old = Unreadable \<and>
   load_seen_items (save_seen_items Truncated m old) = Inr Map.empty"
  by simp

section \<open>Properties of the orchestration\<close>

text \<open>
  C9. When the configuration of the source omits the enabled field, no scraper is
  constructed for it, and the monitoring pass runs nothing: it sends no notification
  and leaves the history file as it was.
\<close>

theorem create_scrapers_needs_enabled:
  assumes "cfg_enabled c = None"
  shows "create_scrapers (config(''yahoo'' \<mapsto> c)) f = [] \<and>
         run_monitoring (config(''yahoo'' \<mapsto> c)) es f = (f, [])"
  using assms by (simp add: create_scrapers_def run_monitoring_def)

theorem create_scrapers_needs_enabled_witness:
  "cfg_enabled \<lparr>cfg_keywords = Some [''camera''], cfg_min_price = Some 10, cfg_enabled = None\<rparr> = None \<and>
   create_scrapers
     [''yahoo'' \<mapsto> \<lparr>cfg_keywords = Some [''camera''], cfg_min_price = Some 10, cfg_enabled = None\<rparr>]
     (Stored [''camera'' \<mapsto> {''a''}]) = [] \<and>
   run_monitoring
     [''yahoo'' \<mapsto> \<lparr>cfg_keywords = Some [''camera''], cfg_min_price = Some 10, cfg_enabled = None\<rparr>]
     [found [item_A, item_B]] (Stored [''camera'' \<mapsto> {''a''}]) = (Stored [''camera'' \<mapsto> {''a''}], []) \<and>
   snd (run_monitoring
     [''yahoo'' \<mapsto> \<lparr>cfg_keywords = Some [''camera''], cfg_min_price = Some 10, cfg_enabled = Some True\<rparr>]
     [found [item_A, item_B]] (Stored [''camera'' \<mapsto> {''a''}])) = [(''camera'', item_B, True)]"
  using create_scrapers_needs_enabled
    [of "\<lparr>cfg_keywords = Some [''camera''], cfg_min_price = Some 10, cfg_enabled = None\<rparr>"
        Map.empty "Stored [''camera'' \<mapsto> {''a''}]" "[found [item_A, item_B]]"]
  by (simp add: create_scrapers_def run_monitoring_def YahooScraper_init_def BaseScraper_init_def
        run_def run_keyword_incremental found_def get_item_id_def get_price_def item_A_def item_B_def
        notify_def)

section \<open>Fault isolation\<close>

lemma run_keywords_append:
  "run_keywords gid sc (xs @ ys) st =
     (case run_keywords gid sc xs st of
        (st', ns) \<Rightarrow> (case run_keywords gid sc ys st' of (st'', ns') \<Rightarrow> (st'', ns @ ns')))"
  by (induction xs arbitrary: st) (auto split: prod.splits)

lemma run_keyword_keywords_list:
  "run_keyword gid (sc\<lparr>keywords_list := ks\<rparr>) k e st = run_keyword gid sc k e st"
  by (simp add: run_keyword_def split: sum.splits prod.splits)

lemma run_keywords_keywords_list:
  "run_keywords gid (sc\<lparr>keywords_list := ks\<rparr>) xs st = run_keywords gid sc xs st"
  by (induction xs arbitrary: st) (simp_all add: run_keyword_keywords_list)

text \<open>
  C5. Fault isolation: when the search of one keyword raises, the run over the whole
  list of keywords ends in the same state, with the same history file and the same
  notifications in the same order, as the run over the list without that keyword.
\<close>

theorem run_isolates_failing_keyword:
  assumes "search_result e = Inl err" and "length es1 = length ks1"
  shows "run gid (sc\<lparr>keywords_list := ks1 @ k # ks2\<rparr>) (es1 @ e # es2) st =
         run gid (sc\<lparr>keywords_list := ks1 @ ks2\<rparr>) (es1 @ es2) st"
proof -
  have z1: "zip (ks1 @ k # ks2) (es1 @ e # es2) = zip ks1 es1 @ (k, e) # zip ks2 es2"
    using assms(2) by simp
  have z2: "zip (ks1 @ ks2) (es1 @ es2) = zip ks1 es1 @ zip ks2 es2"
    using assms(2) by simp
  have eq: "run_keywords gid sc' (zip ks1 es1 @ (k, e) # zip ks2 es2) s =
            run_keywords gid sc' (zip ks1 es1 @ zip ks2 es2) s" for sc' s
    by (simp add: run_keywords_append run_keyword_failed [OF assms(1)] split: prod.splits)
  have none: "ks1 @ ks2 = [] \<Longrightarrow> run_keywords gid sc' (zip ks1 es1 @ zip ks2 es2) s = (s, [])" for sc' s
    by simp
  show ?thesis
    using none [of "sc\<lparr>keywords_list := ks1 @ k # ks2\<rparr>" st]
    by (simp add: run_def z1 z2 eq run_keywords_keywords_list del: append_is_Nil_conv)
qed


theorem run_isolates_failing_keyword_witness:
  "search_result failing = Inl (Exn ''timeout'') \<and> length [found [item_A, item_B]] = length [''camera''] \<and>
   run get_item_id (three_keywords\<lparr>keywords_list := [''camera''] @ ''lens'' # [''tripod'']\<rparr>)
     ([found [item_A, item_B]] @ failing # [found [item_C, item_B]]) steady =
   run get_item_id (three_keywords\<lparr>keywords_list := [''camera''] @ [''tripod'']\<rparr>)
     ([found [item_A, item_B]] @ [found [item_C, item_B]]) steady \<and>
   snd (run get_item_id three_keywords [found [item_A, item_B], failing, found [item_C, item_B]] steady)
     = [(''camera'', item_B, True), (''tripod'', item_B, True)]"
  using run_isolates_failing_keyword
    [where e = failing and err = "Exn ''timeout''" and ?es1.0 = "[found [item_A, item_B]]"
       and ?ks1.0 = "[''camera'']" and gid = get_item_id and sc = three_keywords and k = "''lens''"
       and ?ks2.0 = "[''tripod'']" and ?es2.0 = "[found [item_C, item_B]]" and st = steady]
  by (simp add: failing_def three_keywords_def steady_def run_def run_keyword_incremental
        run_keyword_failed found_def get_item_id_def get_price_def item_A_def item_B_def item_C_def
        notify_def)

section \<open>Properties of the passes\<close>


























lemma run_passes_append:
  "run_passes gid (ps1 @ ps2) st =
     (case run_passes gid ps1 st of
        (st', ns) \<Rightarrow> (case run_passes gid ps2 st' of (st'', ns') \<Rightarrow> (st'', ns @ ns')))"
  by (induction ps1 arbitrary: st) (auto split: prod.splits)


lemma all_ids_distinct_append:
  "all_ids_distinct gid (ps1 @ ps2) = (all_ids_distinct gid ps1 \<and> all_ids_distinct gid ps2)"
  by (induction ps1) auto











end
